theory Spec2Isabelle
  imports Complex_Main
begin

section \<open>Numbers and strings of the JavaScript runtime\<close>

text \<open>
  A finite JavaScript Number is modelled as a real: sums, products and square roots are
  exact and never overflow. The code computes in binary64, and the two agree where every
  intermediate value is a binary64 value (whole numbers and binary fractions of moderate
  size); what turns on the rounding of a sum, a product or a quotient is not decided by
  this model, and no statement below depends on it. The three non-finite values a division
  can produce are kept, because \<open>detectAnomalies\<close> divides without a guard: \<open>x / 0\<close> is
  \<open>Infinity\<close>, \<open>-Infinity\<close> or \<open>NaN\<close> according to the sign of \<open>x\<close>.
\<close>

datatype jsnum = Fin real | PInf | NInf | NaN

definition js_div :: "real \<Rightarrow> real \<Rightarrow> jsnum" where
  "js_div x y =
     (if y \<noteq> 0 then Fin (x / y)
      else if x > 0 then PInf
      else if x < 0 then NInf
      else NaN)"

fun js_abs :: "jsnum \<Rightarrow> jsnum" where
  "js_abs (Fin x) = Fin \<bar>x\<bar>"
| "js_abs PInf = PInf"
| "js_abs NInf = PInf"
| "js_abs NaN = NaN"

text \<open>\<open>a > b\<close> on Numbers: every comparison with \<open>NaN\<close> is false.\<close>

fun js_gt :: "jsnum \<Rightarrow> jsnum \<Rightarrow> bool" where
  "js_gt (Fin x) (Fin y) = (x > y)"
| "js_gt NaN _ = False"
| "js_gt _ NaN = False"
| "js_gt PInf PInf = False"
| "js_gt PInf _ = True"
| "js_gt NInf _ = False"
| "js_gt (Fin x) PInf = False"
| "js_gt (Fin x) NInf = True"

text \<open>Decimal digits of a natural number, as \<open>String(n)\<close> prints them.\<close>

definition digit_char :: "nat \<Rightarrow> char" where
  "digit_char d = ''0123456789'' ! d"

function show_nat :: "nat \<Rightarrow> string" where
  "show_nat n = (if n < 10 then [digit_char n] else show_nat (n div 10) @ [digit_char (n mod 10)])"
  by pat_completeness auto
termination
  by (relation "measure id") auto

declare show_nat.simps [simp del]

definition show_int :: "int \<Rightarrow> string" where
  "show_int i = (if i < 0 then ''-'' @ show_nat (nat (- i)) else show_nat (nat i))"

text \<open>Reading a decimal numeral; \<open>None\<close> when the text is empty or has another character.\<close>

definition digit_val :: "char \<Rightarrow> nat option" where
  "digit_val c = (if c \<in> set ''0123456789'' then Some (of_char c - 48) else None)"

fun parse_nat :: "string \<Rightarrow> nat option" where
  "parse_nat [] = None"
| "parse_nat s =
     foldl (\<lambda>acc c. case (acc, digit_val c) of
                        (Some a, Some d) \<Rightarrow> Some (10 * a + d)
                      | _ \<Rightarrow> None)
       (Some 0) s"

text \<open>\<open>s.padStart(w, '0')\<close>.\<close>

definition padStart0 :: "nat \<Rightarrow> string \<Rightarrow> string" where
  "padStart0 w s = replicate (w - length s) CHR ''0'' @ s"

text \<open>
  \<open>x.toFixed(f)\<close> of a finite Number: the sign, then the integer \<open>n\<close> nearest to
  \<open>|x| * 10^f\<close> (the larger one on a tie) printed with \<open>f\<close> fraction digits.
  Values of \<open>1e21\<close> and above, which JavaScript prints in exponent form, are not
  distinguished.
\<close>

definition toFixed :: "nat \<Rightarrow> real \<Rightarrow> string" where
  "toFixed f x =
     (let n = nat \<lfloor>\<bar>x\<bar> * 10 ^ f + 1 / 2\<rfloor> in
      (if x < 0 then ''-'' else '''') @ show_nat (n div 10 ^ f) @
      (if f = 0 then '''' else ''.'' @ padStart0 f (show_nat (n mod 10 ^ f))))"

fun js_toFixed :: "nat \<Rightarrow> jsnum \<Rightarrow> string" where
  "js_toFixed f (Fin x) = toFixed f x"
| "js_toFixed f PInf = ''Infinity''"
| "js_toFixed f NInf = ''-Infinity''"
| "js_toFixed f NaN = ''NaN''"

text \<open>\<open>parseFloat(x.toFixed(f))\<close>: the Number that the printed decimal denotes.\<close>

definition roundTo :: "nat \<Rightarrow> real \<Rightarrow> real" where
  "roundTo f x =
     (if x < 0 then - (real_of_int \<lfloor>\<bar>x\<bar> * 10 ^ f + 1 / 2\<rfloor> / 10 ^ f)
      else real_of_int \<lfloor>\<bar>x\<bar> * 10 ^ f + 1 / 2\<rfloor> / 10 ^ f)"

text \<open>
  Reading a property of \<open>undefined\<close>, or calling what is not a function, throws a
  \<open>TypeError\<close>. A function that can throw returns \<open>Inl\<close> of the error.
\<close>

datatype js_error = TypeError

section \<open>Readings\<close>

text \<open>
  A reading as the analytics read it. The timestamp is the instant \<open>new Date(item.timestamp)\<close>
  denotes, in milliseconds since the epoch. Of \<open>metadata\<close> only \<open>buildingName\<close> and
  \<open>deviceType\<close> are read; \<open>None\<close> stands for an absent entry.
\<close>

record reading =
  rid :: string
  timestamp :: int
  buildingId :: string
  deviceId :: string
  energyConsumption :: real
  carbonEmissions :: real
  buildingName :: "string option"
  deviceType :: "string option"

section \<open>CarbonDataAnalyzer: anomalies\<close>

text \<open>\<open>xs.reduce((sum, val) => sum + val, 0)\<close>.\<close>

definition reduce_sum :: "real list \<Rightarrow> real" where
  "reduce_sum xs = foldl (\<lambda>sum val. sum + val) 0 xs"

text \<open>The mean and the standard deviation as \<open>detectAnomalies\<close> computes them.\<close>

definition mean_of :: "real list \<Rightarrow> real" where
  "mean_of xs = reduce_sum xs / real (length xs)"

definition stdDev_of :: "real list \<Rightarrow> real" where
  "stdDev_of xs =
     sqrt (foldl (\<lambda>sum val. sum + (val - mean_of xs) ^ 2) 0 xs / real (length xs))"

record anomaly =
  a_id :: string
  a_timestamp :: int
  a_buildingId :: string
  a_deviceId :: string
  a_carbonEmissions :: real
  a_energyConsumption :: real
  emissionsZScore :: string
  energyZScore :: string
  reason :: string

text \<open>
  The body of the \<open>forEach\<close> in \<open>detectAnomalies\<close> for one reading. \<open>ns\<close> is the
  printing of a Number inside a template literal, which an exact real does not determine.
\<close>

definition check_item ::
  "(real \<Rightarrow> string) \<Rightarrow> real \<Rightarrow> real \<Rightarrow> real \<Rightarrow> real \<Rightarrow> real \<Rightarrow> reading \<Rightarrow> anomaly list" where
  "check_item ns threshold emissionsMean emissionsStdDev energyMean energyStdDev item =
     (let eZ = js_div (carbonEmissions item - emissionsMean) emissionsStdDev;
          nZ = js_div (energyConsumption item - energyMean) energyStdDev
      in if js_gt (js_abs eZ) (Fin threshold) \<or> js_gt (js_abs nZ) (Fin threshold)
         then [\<lparr> a_id = rid item, a_timestamp = timestamp item,
                 a_buildingId = buildingId item, a_deviceId = deviceId item,
                 a_carbonEmissions = carbonEmissions item,
                 a_energyConsumption = energyConsumption item,
                 emissionsZScore = js_toFixed 2 eZ,
                 energyZScore = js_toFixed 2 nZ,
                 reason =
                   (if js_gt (js_abs eZ) (js_abs nZ)
                    then ''Unusual carbon emissions ('' @ ns (carbonEmissions item) @
                         '' kg, z-score: '' @ js_toFixed 2 eZ @ '')''
                    else ''Unusual energy consumption ('' @ ns (energyConsumption item) @
                         '' kWh, z-score: '' @ js_toFixed 2 nZ @ '')'') \<rparr>]
         else [])"

definition detectAnomalies :: "(real \<Rightarrow> string) \<Rightarrow> reading list \<Rightarrow> real \<Rightarrow> anomaly list" where
  "detectAnomalies ns data threshold =
     (if length data < 5 then []
      else
        let emissions = map carbonEmissions data;
            emissionsMean = mean_of emissions;
            emissionsStdDev = stdDev_of emissions;
            energy = map energyConsumption data;
            energyMean = mean_of energy;
            energyStdDev = stdDev_of energy
        in concat (map (check_item ns threshold emissionsMean emissionsStdDev
                          energyMean energyStdDev) data))"


section \<open>Objects used as dictionaries\<close>

text \<open>
  An object literal \<open>{}\<close> that collects entries under computed keys is an association
  list of its own properties, in the order they were created. \<open>upsert k init f\<close> is the
  idiom \<open>if (!obj[k]) obj[k] = init; f(obj[k])\<close> for a key that does not name an inherited
  property.
\<close>

fun upsert :: "'k \<Rightarrow> 'v \<Rightarrow> ('v \<Rightarrow> 'v) \<Rightarrow> ('k \<times> 'v) list \<Rightarrow> ('k \<times> 'v) list" where
  "upsert k init f [] = [(k, f init)]"
| "upsert k init f ((k', v) # rest) =
     (if k' = k then (k', f v) # rest else (k', v) # upsert k init f rest)"

text \<open>
  The properties every plain object inherits from \<open>Object.prototype\<close>. Each of them is a
  function or an object, hence truthy: for such a key \<open>obj[k]\<close> is never \<open>undefined\<close>, the
  test \<open>!obj[k]\<close> fails, and no own property is created.
\<close>

definition inherited_names :: "string list" where
  "inherited_names =
     [''constructor'', ''__defineGetter__'', ''__defineSetter__'', ''hasOwnProperty'',
      ''__lookupGetter__'', ''__lookupSetter__'', ''isPrototypeOf'', ''propertyIsEnumerable'',
      ''toString'', ''valueOf'', ''__proto__'', ''toLocaleString'']"

text \<open>
  \<open>Object.values\<close> and \<open>Object.entries\<close> walk the keys that are array indices (the decimal
  numeral of a number below \<open>2^32 - 1\<close>, without leading zeros) first, in ascending order,
  and then the other keys in the order of their creation.
\<close>

definition is_array_index :: "string \<Rightarrow> bool" where
  "is_array_index k =
     (case parse_nat k of None \<Rightarrow> False | Some n \<Rightarrow> show_nat n = k \<and> n < 4294967295)"

definition index_of :: "string \<Rightarrow> nat" where
  "index_of k = (case parse_nat k of None \<Rightarrow> 0 | Some n \<Rightarrow> n)"

definition object_entries :: "(string \<times> 'v) list \<Rightarrow> (string \<times> 'v) list" where
  "object_entries obj =
     sort_key (\<lambda>(k, v). index_of k) (filter (\<lambda>(k, v). is_array_index k) obj) @
     filter (\<lambda>(k, v). \<not> is_array_index k) obj"

text \<open>\<open>a || b\<close> on an optional string: an absent or empty \<open>a\<close> gives \<open>b\<close>.\<close>

definition or_else :: "string option \<Rightarrow> string \<Rightarrow> string" where
  "or_else m d = (case m of None \<Rightarrow> d | Some s \<Rightarrow> if s = [] then d else s)"

section \<open>CarbonDataAnalyzer: carbon intensity\<close>

record device_intensity =
  di_id :: string
  di_type :: string
  di_totalEmissions :: real
  di_totalEnergy :: real
  di_intensity :: real

text \<open>A building while it is accumulated: its devices are still a dictionary.\<close>

record building_acc =
  ba_id :: string
  ba_name :: string
  ba_totalEmissions :: real
  ba_totalEnergy :: real
  ba_intensity :: real
  ba_devices :: "(string \<times> device_intensity) list"

record building_intensity =
  bi_id :: string
  bi_name :: string
  bi_totalEmissions :: real
  bi_totalEnergy :: real
  bi_intensity :: real
  bi_devices :: "device_intensity list"

record intensity_result =
  ir_buildings :: "building_intensity list"
  ir_average :: real

definition new_device :: "reading \<Rightarrow> device_intensity" where
  "new_device item =
     \<lparr> di_id = deviceId item, di_type = or_else (deviceType item) ''unknown'',
       di_totalEmissions = 0, di_totalEnergy = 0, di_intensity = 0 \<rparr>"

definition add_to_device :: "reading \<Rightarrow> device_intensity \<Rightarrow> device_intensity" where
  "add_to_device item device =
     device\<lparr> di_totalEmissions := di_totalEmissions device + carbonEmissions item,
             di_totalEnergy := di_totalEnergy device + energyConsumption item \<rparr>"

definition new_building :: "reading \<Rightarrow> building_acc" where
  "new_building item =
     \<lparr> ba_id = buildingId item, ba_name = or_else (buildingName item) (buildingId item),
       ba_totalEmissions = 0, ba_totalEnergy = 0, ba_intensity = 0, ba_devices = [] \<rparr>"

text \<open>
  The additions for one reading to its building. A device key that names an inherited
  property finds the inherited value: no device entry is created, and the additions go to
  that value, not to the dictionary.
\<close>

definition add_to_building :: "reading \<Rightarrow> building_acc \<Rightarrow> building_acc" where
  "add_to_building item building =
     building\<lparr> ba_totalEmissions := ba_totalEmissions building + carbonEmissions item,
               ba_totalEnergy := ba_totalEnergy building + energyConsumption item,
               ba_devices :=
                 (if deviceId item \<in> set inherited_names then ba_devices building
                  else upsert (deviceId item) (new_device item) (add_to_device item)
                         (ba_devices building)) \<rparr>"

text \<open>
  The first \<open>forEach\<close>: group by building and device. For a building key that names an
  inherited property \<open>building\<close> is the inherited value, which has no \<open>devices\<close>, and
  \<open>building.devices[item.deviceId]\<close> throws.
\<close>

fun group_intensity ::
  "reading list \<Rightarrow> (string \<times> building_acc) list \<Rightarrow> js_error + (string \<times> building_acc) list" where
  "group_intensity [] buildings = Inr buildings"
| "group_intensity (item # rest) buildings =
     (if buildingId item \<in> set inherited_names then Inl TypeError
      else group_intensity rest
             (upsert (buildingId item) (new_building item) (add_to_building item) buildings))"

text \<open>\<open>totalEnergy > 0 ? totalEmissions / totalEnergy : 0\<close>.\<close>

definition intensity_of :: "real \<Rightarrow> real \<Rightarrow> real" where
  "intensity_of totalEmissions totalEnergy =
     (if totalEnergy > 0 then totalEmissions / totalEnergy else 0)"

text \<open>
  \<open>xs.sort((a, b) => b.intensity - a.intensity)\<close>: a stable sort, descending.
\<close>

definition sort_desc :: "('a \<Rightarrow> real) \<Rightarrow> 'a list \<Rightarrow> 'a list" where
  "sort_desc f xs = sort_key (\<lambda>x. - f x) xs"

definition finish_device :: "device_intensity \<Rightarrow> device_intensity" where
  "finish_device device =
     (let device = device\<lparr> di_intensity :=
                     intensity_of (di_totalEmissions device) (di_totalEnergy device) \<rparr>
      in device\<lparr> di_totalEmissions := roundTo 2 (di_totalEmissions device),
                 di_totalEnergy := roundTo 2 (di_totalEnergy device),
                 di_intensity := roundTo 4 (di_intensity device) \<rparr>)"

definition finish_building :: "building_acc \<Rightarrow> building_intensity" where
  "finish_building building =
     \<lparr> bi_id = ba_id building, bi_name = ba_name building,
       bi_totalEmissions = roundTo 2 (ba_totalEmissions building),
       bi_totalEnergy = roundTo 2 (ba_totalEnergy building),
       bi_intensity =
         roundTo 4 (intensity_of (ba_totalEmissions building) (ba_totalEnergy building)),
       bi_devices =
         sort_desc di_intensity
           (map (finish_device \<circ> snd) (object_entries (ba_devices building))) \<rparr>"

definition calculateCarbonIntensity :: "reading list \<Rightarrow> js_error + intensity_result" where
  "calculateCarbonIntensity data =
     (if data = [] then Inr \<lparr> ir_buildings = [], ir_average = 0 \<rparr>
      else
        case group_intensity data [] of
          Inl e \<Rightarrow> Inl e
        | Inr grouped \<Rightarrow>
            let buildings = map snd (object_entries grouped);
                totalEmissions = foldl (\<lambda>t b. t + ba_totalEmissions b) 0 buildings;
                totalEnergy = foldl (\<lambda>t b. t + ba_totalEnergy b) 0 buildings;
                averageIntensity = intensity_of totalEmissions totalEnergy
            in Inr \<lparr> ir_buildings = sort_desc bi_intensity (map finish_building buildings),
                     ir_average = roundTo 4 averageIntensity \<rparr>)"

section \<open>Dates\<close>

text \<open>
  A \<open>Date\<close> is its time value, the milliseconds since the epoch. The local time zone is
  taken to be UTC, so that a day is always 86400000 ms long. The calendar fields come from
  the day number by the usual proleptic Gregorian computation.
\<close>

definition msPerDay :: int where
  "msPerDay = 86400000"

definition day_number :: "int \<Rightarrow> int" where
  "day_number t = t div msPerDay"

text \<open>Year, month (1 to 12) and day of the month of a day number.\<close>

definition civil_from_days :: "int \<Rightarrow> int \<times> int \<times> int" where
  "civil_from_days days =
     (let z = days + 719468;
          era = z div 146097;
          doe = z - era * 146097;
          yoe = (doe - doe div 1460 + doe div 36524 - doe div 146096) div 365;
          y = yoe + era * 400;
          doy = doe - (365 * yoe + yoe div 4 - yoe div 100);
          mp = (5 * doy + 2) div 153;
          d = doy - (153 * mp + 2) div 5 + 1;
          m = (if mp < 10 then mp + 3 else mp - 9)
      in (if m \<le> 2 then y + 1 else y, m, d))"

text \<open>
  The day number of \<open>new Date(year, monthIndex, day)\<close>: months outside 0 to 11 carry into
  the year, and days outside the month carry into the neighbouring months.
\<close>

definition days_from_civil :: "int \<Rightarrow> int \<Rightarrow> int \<Rightarrow> int" where
  "days_from_civil year monthIndex day =
     (let y0 = year + monthIndex div 12;
          m = monthIndex mod 12 + 1;
          y = (if m \<le> 2 then y0 - 1 else y0);
          era = y div 400;
          yoe = y - era * 400;
          doy = (153 * (if m > 2 then m - 3 else m + 9) + 2) div 5;
          doe = yoe * 365 + yoe div 4 - yoe div 100 + doy
      in era * 146097 + doe - 719468 + (day - 1))"

definition getFullYear :: "int \<Rightarrow> int" where
  "getFullYear t = fst (civil_from_days (day_number t))"

text \<open>\<open>getMonth() + 1\<close>.\<close>

definition month_number :: "int \<Rightarrow> int" where
  "month_number t = fst (snd (civil_from_days (day_number t)))"

definition getDate :: "int \<Rightarrow> int" where
  "getDate t = snd (snd (civil_from_days (day_number t)))"

definition getHours :: "int \<Rightarrow> int" where
  "getHours t = (t mod msPerDay) div 3600000"

text \<open>Day of the week, 0 for Sunday; day number 0 was a Thursday.\<close>

definition getDay :: "int \<Rightarrow> int" where
  "getDay t = (day_number t + 4) mod 7"

text \<open>\<open>d.setDate(d.getDate() + k)\<close>.\<close>

definition add_days :: "int \<Rightarrow> int \<Rightarrow> int" where
  "add_days t k = t + k * msPerDay"

text \<open>\<open>d.setHours(0, 0, 0, 0)\<close>.\<close>

definition start_of_day :: "int \<Rightarrow> int" where
  "start_of_day t = t - t mod msPerDay"

definition pad2 :: "int \<Rightarrow> string" where
  "pad2 i = padStart0 2 (show_int i)"

text \<open>\<open>`${d.getFullYear()}-${pad(d.getMonth() + 1)}-${pad(d.getDate())}`\<close>.\<close>

definition ymd_key :: "int \<Rightarrow> string" where
  "ymd_key t = show_int (getFullYear t) @ ''-'' @ pad2 (month_number t) @ ''-'' @ pad2 (getDate t)"

text \<open>
  \<open>d.toISOString().split('T')[0]\<close>: the year has four digits, or a sign and six digits
  outside 0 to 9999.
\<close>

definition iso_date :: "int \<Rightarrow> string" where
  "iso_date t =
     (let y = getFullYear t;
          ys = (if 0 \<le> y \<and> y \<le> 9999 then padStart0 4 (show_nat (nat y))
                else (if y < 0 then ''-'' else ''+'') @ padStart0 6 (show_nat (nat \<bar>y\<bar>)))
      in ys @ ''-'' @ pad2 (month_number t) @ ''-'' @ pad2 (getDate t))"

section \<open>CarbonDataAnalyzer: trends\<close>

record trend_group =
  tg_interval :: string
  tg_totalEmissions :: real
  tg_totalEnergy :: real
  tg_count :: nat

record trend_point =
  tp_interval :: string
  tp_totalEmissions :: real
  tp_totalEnergy :: real
  tp_averageEmissions :: real
  tp_averageEnergy :: real
  tp_count :: nat
  tp_predicted :: real
  tp_deviation :: real

record trend_analysis =
  ta_slope :: real
  ta_yIntercept :: real
  ta_rSquared :: real
  ta_direction :: string
  ta_strength :: string
  ta_interpretation :: string

text \<open>With no data the result has no \<open>analysis\<close> property.\<close>

record trend_result =
  tr_trends :: "trend_point list"
  tr_analysis :: "trend_analysis option"
  tr_hasSignificantTrend :: bool

text \<open>
  The key of the bucket a reading falls into. For an interval other than the three named
  ones \<open>key\<close> stays \<open>undefined\<close>, which as a property name is the text \<open>undefined\<close>.
\<close>

definition interval_key :: "string \<Rightarrow> int \<Rightarrow> string" where
  "interval_key interval t =
     (if interval = ''hour'' then ymd_key t @ '' '' @ pad2 (getHours t) @ '':00''
      else if interval = ''day'' then ymd_key t
      else if interval = ''week'' then ''Week of '' @ ymd_key (add_days t (- getDay t))
      else ''undefined'')"

definition new_group :: "string \<Rightarrow> trend_group" where
  "new_group key = \<lparr> tg_interval = key, tg_totalEmissions = 0, tg_totalEnergy = 0, tg_count = 0 \<rparr>"

definition add_to_group :: "reading \<Rightarrow> trend_group \<Rightarrow> trend_group" where
  "add_to_group item g =
     g\<lparr> tg_totalEmissions := tg_totalEmissions g + carbonEmissions item,
        tg_totalEnergy := tg_totalEnergy g + energyConsumption item,
        tg_count := tg_count g + 1 \<rparr>"

definition group_by_interval :: "string \<Rightarrow> reading list \<Rightarrow> (string \<times> trend_group) list" where
  "group_by_interval interval sortedData =
     foldl (\<lambda>groupedData item.
              let key = interval_key interval (timestamp item)
              in upsert key (new_group key) (add_to_group item) groupedData)
       [] sortedData"

text \<open>A bucket before \<open>predicted\<close> and \<open>deviation\<close> are attached.\<close>

definition to_trend :: "trend_group \<Rightarrow> trend_point" where
  "to_trend g =
     \<lparr> tp_interval = tg_interval g,
       tp_totalEmissions = roundTo 2 (tg_totalEmissions g),
       tp_totalEnergy = roundTo 2 (tg_totalEnergy g),
       tp_averageEmissions = roundTo 2 (tg_totalEmissions g / real (tg_count g)),
       tp_averageEnergy = roundTo 2 (tg_totalEnergy g / real (tg_count g)),
       tp_count = tg_count g, tp_predicted = 0, tp_deviation = 0 \<rparr>"

definition identifyTrends :: "reading list \<Rightarrow> string \<Rightarrow> trend_result" where
  "identifyTrends data interval =
     (if data = [] then \<lparr> tr_trends = [], tr_analysis = None, tr_hasSignificantTrend = False \<rparr>
      else
        let sortedData = sort_key timestamp data;
            groupedData = group_by_interval interval sortedData;
            trends = map (to_trend \<circ> snd) (object_entries groupedData);
            n = length trends;
            xValues = map real [0..<n];
            yValues = map tp_averageEmissions trends;
            xMean = reduce_sum xValues / real n;
            yMean = reduce_sum yValues / real n;
            numerator = foldl (\<lambda>s i. s + (xValues ! i - xMean) * (yValues ! i - yMean)) 0 [0..<n];
            denominator = foldl (\<lambda>s i. s + (xValues ! i - xMean) ^ 2) 0 [0..<n];
            slope = (if denominator \<noteq> 0 then numerator / denominator else 0);
            yIntercept = yMean - slope * xMean;
            predicted = map (\<lambda>x. slope * x + yIntercept) xValues;
            ssResidual = foldl (\<lambda>s i. s + (yValues ! i - predicted ! i) ^ 2) 0 [0..<n];
            ssTotal = foldl (\<lambda>s i. s + (yValues ! i - yMean) ^ 2) 0 [0..<n];
            rSquared = (if ssTotal \<noteq> 0 then 1 - ssResidual / ssTotal else 0);
            trends = map (\<lambda>i.
                       (trends ! i)\<lparr> tp_predicted := roundTo 2 (predicted ! i),
                              tp_deviation :=
                                roundTo 2 (tp_averageEmissions (trends ! i) - predicted ! i) \<rparr>)
                       [0..<n];
            hasSignificantTrend = (\<bar>slope\<bar> > 1 / 10 \<and> rSquared > 3 / 10);
            trendDirection = (if slope > 0 then ''increasing''
                              else if slope < 0 then ''decreasing'' else ''stable'');
            trendStrength = (if rSquared > 7 / 10 then ''strong''
                             else if rSquared > 3 / 10 then ''moderate'' else ''weak'')
        in \<lparr> tr_trends = trends,
             tr_analysis = Some
               \<lparr> ta_slope = roundTo 4 slope, ta_yIntercept = roundTo 4 yIntercept,
                 ta_rSquared = roundTo 4 rSquared, ta_direction = trendDirection,
                 ta_strength = trendStrength,
                 ta_interpretation = ''Carbon emissions show a '' @ trendStrength @ '' '' @
                   trendDirection @ '' trend over the '' @ interval @ ''s analyzed.'' \<rparr>,
             tr_hasSignificantTrend = hasSignificantTrend \<rparr>)"

section \<open>CarbonDataAnalyzer: recommendations and forecast\<close>

record recommendation =
  rec_type :: string
  rec_priority :: string
  rec_target :: "string option"
  rec_text :: string

text \<open>The rule on the building with the highest intensity and on its worst device.\<close>

definition intensity_recommendations :: "intensity_result \<Rightarrow> recommendation list" where
  "intensity_recommendations intensityData =
     (case ir_buildings intensityData of
        [] \<Rightarrow> []
      | highestIntensity # _ \<Rightarrow>
          if bi_intensity highestIntensity > ir_average intensityData * (3 / 2) then
            \<lparr> rec_type = ''efficiency'', rec_priority = ''high'',
              rec_target = Some (bi_name highestIntensity),
              rec_text = bi_name highestIntensity @ '' has a carbon intensity '' @
                js_toFixed 1 (js_div (bi_intensity highestIntensity) (ir_average intensityData)) @
                ''x higher than average. Consider energy efficiency improvements.'' \<rparr> #
            (case bi_devices highestIntensity of
               [] \<Rightarrow> []
             | worstDevice # _ \<Rightarrow>
                 if di_intensity worstDevice > bi_intensity highestIntensity * (13 / 10) then
                   [\<lparr> rec_type = ''device'', rec_priority = ''high'',
                      rec_target = Some (di_type worstDevice @ '' in '' @ bi_name highestIntensity),
                      rec_text = ''The '' @ di_type worstDevice @ '' in '' @
                        bi_name highestIntensity @
                        '' has particularly high carbon intensity. Consider upgrading or optimizing this system.'' \<rparr>]
                 else [])
          else [])"

text \<open>The rule on a significant trend; \<open>trends.analysis.slope\<close> needs the analysis.\<close>

definition trend_recommendations :: "trend_result \<Rightarrow> js_error + recommendation list" where
  "trend_recommendations trends =
     (if tr_hasSignificantTrend trends then
        (case tr_analysis trends of
           None \<Rightarrow> Inl TypeError
         | Some analysis \<Rightarrow>
             if ta_slope analysis > 0 then
               Inr [\<lparr> rec_type = ''trend'', rec_priority = ''high'', rec_target = None,
                      rec_text = ''Carbon emissions are '' @ ta_strength analysis @
                        '' increasing over time. Review recent operational changes and consider implementing additional reduction measures.'' \<rparr>]
             else
               Inr [\<lparr> rec_type = ''trend'', rec_priority = ''low'', rec_target = None,
                      rec_text = ''Carbon emissions are '' @ ta_strength analysis @
                        '' decreasing over time. Current reduction measures appear to be effective.'' \<rparr>])
      else Inr [])"

text \<open>
  The anomalies grouped by building. For a building key that names an inherited property
  \<open>buildingAnomalies[anomaly.buildingId]\<close> is the inherited value, which has no \<open>push\<close>,
  and the call throws.
\<close>

fun group_anomalies ::
  "anomaly list \<Rightarrow> (string \<times> anomaly list) list \<Rightarrow> js_error + (string \<times> anomaly list) list" where
  "group_anomalies [] buildingAnomalies = Inr buildingAnomalies"
| "group_anomalies (anomaly # rest) buildingAnomalies =
     (if a_buildingId anomaly \<in> set inherited_names then Inl TypeError
      else group_anomalies rest
             (upsert (a_buildingId anomaly) [] (\<lambda>l. l @ [anomaly]) buildingAnomalies))"

text \<open>
  The rule on buildings with more than two anomalies. An anomaly has no \<open>metadata\<close>, so
  the building is always named by its id.
\<close>

definition anomaly_recommendations :: "anomaly list \<Rightarrow> js_error + recommendation list" where
  "anomaly_recommendations anomalies =
     (case group_anomalies anomalies [] of
        Inl e \<Rightarrow> Inl e
      | Inr buildingAnomalies \<Rightarrow>
          Inr (concat (map (\<lambda>(buildingId, buildingAnomaliesList).
                   if length buildingAnomaliesList > 2 then
                     [\<lparr> rec_type = ''anomaly'', rec_priority = ''medium'',
                        rec_target = Some buildingId,
                        rec_text = buildingId @ '' shows '' @
                          show_nat (length buildingAnomaliesList) @
                          '' unusual readings. Consider investigating for potential equipment malfunctions or operational issues.'' \<rparr>]
                   else [])
                 (object_entries buildingAnomalies))))"

definition general_recommendations :: "recommendation list" where
  "general_recommendations =
     [\<lparr> rec_type = ''general'', rec_priority = ''medium'', rec_target = None,
        rec_text = ''Consider implementing a regular energy audit program to identify further efficiency opportunities.'' \<rparr>,
      \<lparr> rec_type = ''general'', rec_priority = ''medium'', rec_target = None,
        rec_text = ''Develop a carbon reduction roadmap with specific targets and timelines for each building.'' \<rparr>]"

text \<open>
  \<open>generateRecommendations\<close>. The three analyses run first, in this order, and an error
  of \<open>calculateCarbonIntensity\<close> ends the call before any rule is tried.
\<close>

definition generateRecommendations ::
  "(real \<Rightarrow> string) \<Rightarrow> reading list \<Rightarrow> js_error + recommendation list" where
  "generateRecommendations ns data =
     (if length data < 10 then
        Inr [\<lparr> rec_type = ''general'', rec_priority = ''medium'', rec_target = None,
               rec_text = ''Collect more data to enable comprehensive analysis and more specific recommendations.'' \<rparr>]
      else
        case calculateCarbonIntensity data of
          Inl e \<Rightarrow> Inl e
        | Inr intensityData \<Rightarrow>
            let trends = identifyTrends data ''day'';
                anomalies = detectAnomalies ns data 2
            in case trend_recommendations trends of
                 Inl e \<Rightarrow> Inl e
               | Inr trendRecs \<Rightarrow>
                   (case anomaly_recommendations anomalies of
                      Inl e \<Rightarrow> Inl e
                    | Inr anomalyRecs \<Rightarrow>
                        let recommendations =
                              intensity_recommendations intensityData @ trendRecs @ anomalyRecs
                        in if length recommendations < 2
                           then Inr (recommendations @ general_recommendations)
                           else Inr recommendations))"

record forecast_point =
  fp_interval :: string
  fp_forecast :: real

text \<open>With too little data the result has no \<open>historical\<close> and no \<open>slope\<close> property.\<close>

record forecast_result =
  fr_historical :: "trend_point list option"
  fr_forecast :: "forecast_point list"
  fr_confidence :: string
  fr_slope :: "real option"
  fr_message :: string

text \<open>
  The label of forecast period \<open>i\<close>. \<open>lastDate\<close> is \<open>new Date(key)\<close> of the last bucket's
  key, \<open>None\<close> for an invalid date, whose fields all print as \<open>NaN\<close>.
\<close>

definition forecast_label :: "int option \<Rightarrow> string \<Rightarrow> nat \<Rightarrow> string" where
  "forecast_label lastDate interval i =
     (if interval = ''day'' then
        (case lastDate of
           None \<Rightarrow> ''NaN-NaN-NaN''
         | Some t \<Rightarrow> ymd_key (add_days t (int i + 1)))
      else if interval = ''week'' then
        ''Week of '' @
        (case lastDate of
           None \<Rightarrow> ''NaN-NaN-NaN''
         | Some t \<Rightarrow> ymd_key (add_days t ((int i + 1) * 7)))
      else ''Future '' @ interval @ '' '' @ show_nat (i + 1))"

text \<open>
  \<open>forecast\<close>. How \<open>new Date(string)\<close> reads a bucket key is left to the engine for keys
  that are not ISO dates, so it is the parameter \<open>dp\<close>. \<open>periods\<close> is a finite Number; the
  loop \<open>for (i = 0; i < periods; i++)\<close> runs once for each whole number below it. Its body reads
  \<open>trends.trends[trends.trends.length - 1].interval\<close>, which throws when there is no bucket.
\<close>

definition forecast ::
  "(string \<Rightarrow> int option) \<Rightarrow> reading list \<Rightarrow> real \<Rightarrow> string \<Rightarrow> js_error + forecast_result" where
  "forecast dp data periods interval =
     (if length data < 10 then
        Inr \<lparr> fr_historical = None, fr_forecast = [], fr_confidence = ''low'', fr_slope = None,
              fr_message = ''Insufficient historical data for accurate forecasting'' \<rparr>
      else
        let trends = identifyTrends data interval
        in case tr_analysis trends of
             None \<Rightarrow> Inl TypeError
           | Some analysis \<Rightarrow>
               if tr_trends trends = [] \<and> 0 < periods then Inl TypeError
               else
                 let historicalValues = map tp_averageEmissions (tr_trends trends);
                     lastValue = last historicalValues;
                     lastDate = dp (tp_interval (last (tr_trends trends)));
                     (currentForecast, forecast) =
                       foldl (\<lambda>(currentForecast, forecast) i.
                                let currentForecast = max 0 (currentForecast + ta_slope analysis)
                                in (currentForecast,
                                    forecast @ [\<lparr> fp_interval = forecast_label lastDate interval i,
                                                  fp_forecast = roundTo 2 currentForecast \<rparr>]))
                         (lastValue, []) [0..<nat \<lceil>periods\<rceil>];
                     confidence =
                       (if ta_rSquared analysis > 7 / 10 \<and> length data > 30 then ''high''
                        else if ta_rSquared analysis > 4 / 10 \<and> length data > 20 then ''medium''
                        else ''low'')
                 in Inr \<lparr> fr_historical = Some (tr_trends trends), fr_forecast = forecast,
                          fr_confidence = confidence, fr_slope = Some (ta_slope analysis),
                          fr_message = ''This forecast has '' @ confidence @
                            '' confidence based on '' @ show_nat (length data) @
                            '' data points and an R'' @ [CHR 0xB2] @ '' of '' @
                            toFixed 2 (ta_rSquared analysis) @ ''.'' \<rparr>)"

text \<open>
  One reading of \<open>new Date(string)\<close>: the ISO form \<open>YYYY-MM-DD\<close> is midnight UTC of that
  day; any other text is an invalid date.
\<close>

definition parse_ymd :: "string \<Rightarrow> int option" where
  "parse_ymd s =
     (if length s = 10 \<and> s ! 4 = CHR ''-'' \<and> s ! 7 = CHR ''-'' then
        (case (parse_nat (take 4 s), parse_nat (take 2 (drop 5 s)), parse_nat (drop 8 s)) of
           (Some y, Some m, Some d) \<Rightarrow>
             if 1 \<le> m \<and> m \<le> 12 \<and> 1 \<le> d \<and> d \<le> 31
             then Some (days_from_civil (int y) (int m - 1) (int d) * msPerDay)
             else None
         | _ \<Rightarrow> None)
      else None)"

section \<open>CarbonDataAnalyzer: statistics\<close>

text \<open>A property that holds a Number in one branch and the text of \<open>toFixed\<close> in another.\<close>

datatype jsval = JNum real | JStr string

text \<open>\<open>Math.min(...xs)\<close> and \<open>Math.max(...xs)\<close> of a non-empty array.\<close>

definition js_min :: "'a::linorder list \<Rightarrow> 'a" where
  "js_min xs = fold min (tl xs) (hd xs)"

definition js_max :: "'a::linorder list \<Rightarrow> 'a" where
  "js_max xs = fold max (tl xs) (hd xs)"

definition toISOString :: "int \<Rightarrow> string" where
  "toISOString t =
     (let ms = t mod msPerDay
      in iso_date t @ ''T'' @ pad2 (ms div 3600000) @ '':'' @ pad2 (ms div 60000 mod 60) @
         '':'' @ pad2 (ms div 1000 mod 60) @ ''.'' @ padStart0 3 (show_int (ms mod 1000)) @ ''Z'')"

record statistics =
  st_count :: nat
  st_emissionsTotal :: jsval
  st_emissionsAvg :: jsval
  st_emissionsMin :: jsval
  st_emissionsMax :: jsval
  st_energyTotal :: jsval
  st_energyAvg :: jsval
  st_energyMin :: jsval
  st_energyMax :: jsval
  st_dateRange :: "string option \<times> string option"

definition getStatistics :: "reading list \<Rightarrow> statistics" where
  "getStatistics data =
     (if data = [] then
        \<lparr> st_count = 0, st_emissionsTotal = JNum 0, st_emissionsAvg = JNum 0,
          st_emissionsMin = JNum 0, st_emissionsMax = JNum 0, st_energyTotal = JNum 0,
          st_energyAvg = JNum 0, st_energyMin = JNum 0, st_energyMax = JNum 0,
          st_dateRange = (None, None) \<rparr>
      else
        let emissions = map carbonEmissions data;
            energy = map energyConsumption data;
            timestamps = map timestamp data;
            startDate = js_min timestamps;
            endDate = js_max timestamps
        in \<lparr> st_count = length data,
             st_emissionsTotal = JStr (toFixed 2 (reduce_sum emissions)),
             st_emissionsAvg = JStr (toFixed 2 (reduce_sum emissions / real (length emissions))),
             st_emissionsMin = JStr (toFixed 2 (js_min emissions)),
             st_emissionsMax = JStr (toFixed 2 (js_max emissions)),
             st_energyTotal = JStr (toFixed 2 (reduce_sum energy)),
             st_energyAvg = JStr (toFixed 2 (reduce_sum energy / real (length energy))),
             st_energyMin = JStr (toFixed 2 (js_min energy)),
             st_energyMax = JStr (toFixed 2 (js_max energy)),
             st_dateRange = (Some (toISOString startDate), Some (toISOString endDate)) \<rparr>)"

section \<open>ReportGenerator\<close>

record device_totals =
  dt_id :: string
  dt_type :: string
  dt_totalEmissions :: real
  dt_totalEnergy :: real
  dt_readingCount :: nat

record building_totals_acc =
  bta_id :: string
  bta_name :: string
  bta_totalEmissions :: real
  bta_totalEnergy :: real
  bta_readingCount :: nat
  bta_devices :: "(string \<times> device_totals) list"

record building_totals =
  bt_id :: string
  bt_name :: string
  bt_totalEmissions :: real
  bt_totalEnergy :: real
  bt_readingCount :: nat
  bt_devices :: "device_totals list"

definition buildingNames :: "(string \<times> string) list" where
  "buildingNames =
     [(''B-101'', ''City Hall''), (''B-102'', ''Community Center''),
      (''B-103'', ''Public Library''), (''B-104'', ''Police Station''),
      (''B-105'', ''Fire Station'')]"

definition rg_new_device :: "reading \<Rightarrow> device_totals" where
  "rg_new_device item =
     \<lparr> dt_id = deviceId item, dt_type = or_else (deviceType item) ''unknown'',
       dt_totalEmissions = 0, dt_totalEnergy = 0, dt_readingCount = 0 \<rparr>"

definition rg_add_to_device :: "reading \<Rightarrow> device_totals \<Rightarrow> device_totals" where
  "rg_add_to_device item device =
     device\<lparr> dt_totalEmissions := dt_totalEmissions device + carbonEmissions item,
             dt_totalEnergy := dt_totalEnergy device + energyConsumption item,
             dt_readingCount := dt_readingCount device + 1 \<rparr>"

definition rg_new_building :: "reading \<Rightarrow> building_totals_acc" where
  "rg_new_building item =
     \<lparr> bta_id = buildingId item,
       bta_name = or_else (buildingName item)
                    (or_else (map_of buildingNames (buildingId item)) (buildingId item)),
       bta_totalEmissions = 0, bta_totalEnergy = 0, bta_readingCount = 0, bta_devices = [] \<rparr>"

text \<open>
  The additions for one reading to its building. As in \<open>calculateCarbonIntensity\<close>, a
  device key that names an inherited property creates no device entry.
\<close>

definition rg_add_to_building :: "reading \<Rightarrow> building_totals_acc \<Rightarrow> building_totals_acc" where
  "rg_add_to_building item building =
     building\<lparr> bta_totalEmissions := bta_totalEmissions building + carbonEmissions item,
               bta_totalEnergy := bta_totalEnergy building + energyConsumption item,
               bta_readingCount := bta_readingCount building + 1,
               bta_devices :=
                 (if deviceId item \<in> set inherited_names then bta_devices building
                  else upsert (deviceId item) (rg_new_device item) (rg_add_to_device item)
                         (bta_devices building)) \<rparr>"

text \<open>
  The \<open>forEach\<close> of \<open>groupByBuilding\<close>. For a building key that names an inherited
  property \<open>building\<close> is the inherited value, which has no \<open>devices\<close>, and
  \<open>building.devices[item.deviceId]\<close> throws.
\<close>

fun group_totals ::
  "reading list \<Rightarrow> (string \<times> building_totals_acc) list \<Rightarrow>
   js_error + (string \<times> building_totals_acc) list" where
  "group_totals [] buildings = Inr buildings"
| "group_totals (item # rest) buildings =
     (if buildingId item \<in> set inherited_names then Inl TypeError
      else group_totals rest
             (upsert (buildingId item) (rg_new_building item) (rg_add_to_building item)
                buildings))"

definition finish_totals :: "building_totals_acc \<Rightarrow> building_totals" where
  "finish_totals building =
     \<lparr> bt_id = bta_id building, bt_name = bta_name building,
       bt_totalEmissions = roundTo 2 (bta_totalEmissions building),
       bt_totalEnergy = roundTo 2 (bta_totalEnergy building),
       bt_readingCount = bta_readingCount building,
       bt_devices =
         sort_desc dt_totalEmissions
           (map (\<lambda>(d, device).
                   device\<lparr> dt_totalEmissions := roundTo 2 (dt_totalEmissions device),
                           dt_totalEnergy := roundTo 2 (dt_totalEnergy device) \<rparr>)
              (object_entries (bta_devices building))) \<rparr>"

definition groupByBuilding :: "reading list \<Rightarrow> js_error + building_totals list" where
  "groupByBuilding data =
     (case group_totals data [] of
        Inl e \<Rightarrow> Inl e
      | Inr buildings \<Rightarrow>
          Inr (sort_desc bt_totalEmissions
                 (map (finish_totals \<circ> snd) (object_entries buildings))))"

record hour_totals =
  ht_hour :: int
  ht_totalEmissions :: real
  ht_totalEnergy :: real
  ht_readingCount :: nat

text \<open>
  \<open>groupByHour\<close>. The buckets are sorted by hour at the end, and each hour occurs once, so
  the order in which \<open>Object.values\<close> walks them does not show in the result.
\<close>

definition groupByHour :: "reading list \<Rightarrow> hour_totals list" where
  "groupByHour data =
     (let hours =
            foldl (\<lambda>hours item.
                     let hour = getHours (timestamp item)
                     in upsert hour
                          \<lparr> ht_hour = hour, ht_totalEmissions = 0, ht_totalEnergy = 0,
                            ht_readingCount = 0 \<rparr>
                          (\<lambda>h. h\<lparr> ht_totalEmissions := ht_totalEmissions h + carbonEmissions item,
                                   ht_totalEnergy := ht_totalEnergy h + energyConsumption item,
                                   ht_readingCount := ht_readingCount h + 1 \<rparr>)
                          hours)
              [] data
      in sort_key ht_hour
           (map (\<lambda>(k, hour).
                   hour\<lparr> ht_totalEmissions := roundTo 2 (ht_totalEmissions hour),
                         ht_totalEnergy := roundTo 2 (ht_totalEnergy hour) \<rparr>)
              hours))"

record day_totals =
  dy_date :: string
  dy_dayOfWeek :: int
  dy_dayName :: string
  dy_totalEmissions :: real
  dy_totalEnergy :: real
  dy_readingCount :: nat

definition dayNames :: "string list" where
  "dayNames = [''Sunday'', ''Monday'', ''Tuesday'', ''Wednesday'', ''Thursday'', ''Friday'',
               ''Saturday'']"

text \<open>
  \<open>groupByDay\<close>: one entry per day from \<open>startDate\<close> on, then each reading is added to the
  entry at index \<open>floor((date - startDate) / 86400000)\<close> when that is in range.
\<close>

definition groupByDay :: "reading list \<Rightarrow> int \<Rightarrow> nat \<Rightarrow> day_totals list" where
  "groupByDay data startDate days =
     (let dailyData =
            map (\<lambda>i. let date = add_days startDate (int i)
                      in \<lparr> dy_date = iso_date date, dy_dayOfWeek = getDay date,
                           dy_dayName = dayNames ! nat (getDay date),
                           dy_totalEmissions = 0, dy_totalEnergy = 0, dy_readingCount = 0 \<rparr>)
              [0..<days];
          dailyData =
            foldl (\<lambda>dailyData item.
                     let dayIndex = (timestamp item - startDate) div msPerDay
                     in if 0 \<le> dayIndex \<and> dayIndex < int days then
                          dailyData[nat dayIndex :=
                            (dailyData ! nat dayIndex)
                              \<lparr> dy_totalEmissions :=
                                  dy_totalEmissions (dailyData ! nat dayIndex) + carbonEmissions item,
                                dy_totalEnergy :=
                                  dy_totalEnergy (dailyData ! nat dayIndex) + energyConsumption item,
                                dy_readingCount := dy_readingCount (dailyData ! nat dayIndex) + 1 \<rparr>]
                        else dailyData)
              dailyData data
      in map (\<lambda>day. day\<lparr> dy_totalEmissions := roundTo 2 (dy_totalEmissions day),
                           dy_totalEnergy := roundTo 2 (dy_totalEnergy day) \<rparr>)
           dailyData)"

record peak_hour =
  pk_hour :: int
  pk_emissions :: real

definition findPeakHour :: "hour_totals list \<Rightarrow> peak_hour option" where
  "findPeakHour hourlyData =
     (case hourlyData of
        [] \<Rightarrow> None
      | first # _ \<Rightarrow>
          Some (foldl (\<lambda>peak hour.
                         if ht_totalEmissions hour > pk_emissions peak
                         then \<lparr> pk_hour = ht_hour hour, pk_emissions = ht_totalEmissions hour \<rparr>
                         else peak)
                  \<lparr> pk_hour = ht_hour first, pk_emissions = ht_totalEmissions first \<rparr>
                  hourlyData))"

record peak_day =
  pd_dayName :: string
  pd_emissions :: real

definition findPeakDay :: "day_totals list \<Rightarrow> peak_day option" where
  "findPeakDay dailyData =
     (case dailyData of
        [] \<Rightarrow> None
      | first # _ \<Rightarrow>
          Some (foldl (\<lambda>peak day.
                         if dy_totalEmissions day > pd_emissions peak
                         then \<lparr> pd_dayName = dy_dayName day, pd_emissions = dy_totalEmissions day \<rparr>
                         else peak)
                  \<lparr> pd_dayName = dy_dayName first, pd_emissions = dy_totalEmissions first \<rparr>
                  dailyData))"

record report_recommendation =
  rr_priority :: string
  rr_category :: string
  rr_building :: "string option"
  rr_device :: "string option"
  rr_text :: string

definition building_recommendations ::
  "(real \<Rightarrow> string) \<Rightarrow> building_totals \<Rightarrow> report_recommendation list" where
  "building_recommendations ns building =
     (if bt_totalEmissions building > 100 then
        [\<lparr> rr_priority = ''high'', rr_category = ''building'',
           rr_building = Some (bt_name building), rr_device = None,
           rr_text = bt_name building @ '' has unusually high emissions ('' @
             ns (bt_totalEmissions building) @
             '' kg CO2). Consider an energy audit to identify inefficiencies.'' \<rparr>]
      else []) @
     concat (map (\<lambda>device.
               if dt_totalEmissions device > bt_totalEmissions building * (4 / 10) then
                 [\<lparr> rr_priority = ''medium'', rr_category = ''device'',
                    rr_building = Some (bt_name building), rr_device = Some (dt_type device),
                    rr_text = dt_type device @ '' in '' @ bt_name building @
                      '' accounts for over 40% of the building'' @ [CHR 0x27] @
                      ''s emissions. Consider upgrading or optimizing this system.'' \<rparr>]
               else [])
             (bt_devices building))"

text \<open>
  \<open>generateRecommendations(data, reportType)\<close> of the report generator. In the weekly
  branch the days are counted from the first reading's own timestamp.
\<close>

definition rg_generateRecommendations ::
  "(real \<Rightarrow> string) \<Rightarrow> reading list \<Rightarrow> string \<Rightarrow> js_error + report_recommendation list" where
  "rg_generateRecommendations ns data reportType =
     (if length data < 5 then
        Inr [\<lparr> rr_priority = ''low'', rr_category = ''general'', rr_building = None,
               rr_device = None,
               rr_text = ''Insufficient data to generate meaningful recommendations. Continue collecting data to improve insights.'' \<rparr>]
      else
        case groupByBuilding data of
          Inl e \<Rightarrow> Inl e
        | Inr buildings \<Rightarrow>
            let recommendations = concat (map (building_recommendations ns) buildings);
                recommendations = recommendations @
                  (if reportType = ''daily'' then
                     (case findPeakHour (groupByHour data) of
                        None \<Rightarrow> []
                      | Some peakHour \<Rightarrow>
                          [\<lparr> rr_priority = ''medium'', rr_category = ''timing'',
                             rr_building = None, rr_device = None,
                             rr_text = ''Peak emissions occur at '' @ show_int (pk_hour peakHour) @
                               '':00. Consider shifting energy-intensive operations to off-peak hours.'' \<rparr>])
                   else if reportType = ''weekly'' then
                     (case findPeakDay (groupByDay data (timestamp (hd data)) 7) of
                        None \<Rightarrow> []
                      | Some peakDay \<Rightarrow>
                          [\<lparr> rr_priority = ''medium'', rr_category = ''timing'',
                             rr_building = None, rr_device = None,
                             rr_text = pd_dayName peakDay @
                               '' shows the highest emissions. Review operations on this day to identify reduction opportunities.'' \<rparr>])
                   else [])
            in if length recommendations < 2 then
                 Inr (recommendations @
                 [\<lparr> rr_priority = ''low'', rr_category = ''general'', rr_building = None,
                    rr_device = None,
                    rr_text = ''Consider implementing a regular energy monitoring program to track consumption patterns and identify inefficiencies.'' \<rparr>,
                  \<lparr> rr_priority = ''low'', rr_category = ''general'', rr_building = None,
                    rr_device = None,
                    rr_text = ''Educate staff about energy conservation practices to reduce overall carbon footprint.'' \<rparr>])
               else Inr recommendations)"


record week_totals =
  wk_week :: nat
  wk_startDate :: "string option"
  wk_endDate :: "string option"
  wk_totalEmissions :: real
  wk_totalEnergy :: real
  wk_readingCount :: nat


text \<open>
  The summary and the report of all three report types; a property that a report type
  does not have is \<open>None\<close>.
\<close>

record summary =
  sm_totalEmissions :: real
  sm_totalEnergy :: real
  sm_readingCount :: nat
  sm_peakHour :: "string option"
  sm_peakDay :: "string option"
  sm_peakEmissions :: "real option"
  sm_dailyAverage :: "real option"

record report =
  rp_reportType :: string
  rp_date :: "string option"
  rp_startDate :: "string option"
  rp_endDate :: "string option"
  rp_year :: "int option"
  rp_month :: "int option"
  rp_summary :: summary
  rp_buildings :: "building_totals list"
  rp_hourly :: "hour_totals list option"
  rp_daily :: "day_totals list option"
  rp_weeklyTrend :: "week_totals list option"
  rp_recommendations :: "report_recommendation list"

text \<open>The readings with \<open>start \<le> timestamp < end\<close>.\<close>

definition in_window :: "int \<Rightarrow> int \<Rightarrow> reading list \<Rightarrow> reading list" where
  "in_window start end data = filter (\<lambda>item. timestamp item \<ge> start \<and> timestamp item < end) data"

text \<open>
  The three report builders. Each calls \<open>groupByBuilding\<close> on the readings of its window
  before the report object is built, so an error there ends the call without a report.
\<close>

definition generateDailyReport ::
  "(real \<Rightarrow> string) \<Rightarrow> reading list \<Rightarrow> int \<Rightarrow> js_error + report" where
  "generateDailyReport ns carbonData date =
     (let reportDate = start_of_day date;
          nextDay = add_days reportDate 1;
          dailyData = in_window reportDate nextDay carbonData;
          totalEmissions = foldl (\<lambda>sum item. sum + carbonEmissions item) 0 dailyData;
          totalEnergy = foldl (\<lambda>sum item. sum + energyConsumption item) 0 dailyData;
          hourlyData = groupByHour dailyData;
          peakHour = findPeakHour hourlyData
      in case groupByBuilding dailyData of
           Inl e \<Rightarrow> Inl e
         | Inr buildingData \<Rightarrow>
             (case rg_generateRecommendations ns dailyData ''daily'' of
                Inl e \<Rightarrow> Inl e
              | Inr recommendations \<Rightarrow>
                  Inr \<lparr> rp_reportType = ''daily'',
                          rp_date = Some (iso_date reportDate),
                          rp_startDate = None, rp_endDate = None, rp_year = None, rp_month = None,
                          rp_summary =
                            \<lparr> sm_totalEmissions = roundTo 2 totalEmissions,
                              sm_totalEnergy = roundTo 2 totalEnergy,
                              sm_readingCount = length dailyData,
                              sm_peakHour = Some (case peakHour of
                                                    None \<Rightarrow> ''N/A''
                                                  | Some p \<Rightarrow> show_int (pk_hour p) @ '':00''),
                              sm_peakDay = None,
                              sm_peakEmissions = Some (case peakHour of
                                                         None \<Rightarrow> 0
                                                       | Some p \<Rightarrow> roundTo 2 (pk_emissions p)),
                              sm_dailyAverage = None \<rparr>,
                          rp_buildings = buildingData,
                          rp_hourly = Some hourlyData,
                          rp_daily = None,
                          rp_weeklyTrend = None,
                          rp_recommendations = recommendations \<rparr>))"



text \<open>
  \<open>exportReportAsCsv\<close>. A missing property prints as \<open>undefined\<close>; a text is truthy when
  it is present and not empty, an array whenever it is present.
\<close>

definition nl :: string where
  "nl = [CHR 0x0A]"

definition opt_str :: "string option \<Rightarrow> string" where
  "opt_str s = (case s of None \<Rightarrow> ''undefined'' | Some t \<Rightarrow> t)"

definition opt_num :: "('a \<Rightarrow> string) \<Rightarrow> 'a option \<Rightarrow> string" where
  "opt_num f x = (case x of None \<Rightarrow> ''undefined'' | Some v \<Rightarrow> f v)"

definition truthy :: "string option \<Rightarrow> bool" where
  "truthy s = (case s of None \<Rightarrow> False | Some t \<Rightarrow> t \<noteq> [])"

definition exportReportAsCsv :: "(real \<Rightarrow> string) \<Rightarrow> report \<Rightarrow> string" where
  "exportReportAsCsv ns report =
     (let csv = '''';
          csv = csv @ ''Report Type,'' @ rp_reportType report @ nl;
          csv = csv @
            (if rp_reportType report = ''daily'' then
               ''Date,'' @ opt_str (rp_date report) @ nl
             else if rp_reportType report = ''weekly'' then
               ''Start Date,'' @ opt_str (rp_startDate report) @ nl @
               ''End Date,'' @ opt_str (rp_endDate report) @ nl
             else if rp_reportType report = ''monthly'' then
               ''Year,'' @ opt_num show_int (rp_year report) @ nl @
               ''Month,'' @ opt_num show_int (rp_month report) @ nl
             else '''');
          csv = csv @ nl;
          csv = csv @ ''SUMMARY'' @ nl;
          csv = csv @ ''Total Emissions (kg CO2),'' @ ns (sm_totalEmissions (rp_summary report)) @ nl;
          csv = csv @ ''Total Energy (kWh),'' @ ns (sm_totalEnergy (rp_summary report)) @ nl;
          csv = csv @ ''Reading Count,'' @ show_nat (sm_readingCount (rp_summary report)) @ nl;
          csv = csv @
            (if rp_reportType report = ''daily'' \<and> truthy (sm_peakHour (rp_summary report)) then
               ''Peak Hour,'' @ opt_str (sm_peakHour (rp_summary report)) @ nl @
               ''Peak Emissions (kg CO2),'' @ opt_num ns (sm_peakEmissions (rp_summary report)) @ nl
             else if rp_reportType report = ''weekly'' \<and> truthy (sm_peakDay (rp_summary report)) then
               ''Peak Day,'' @ opt_str (sm_peakDay (rp_summary report)) @ nl @
               ''Peak Emissions (kg CO2),'' @ opt_num ns (sm_peakEmissions (rp_summary report)) @ nl
             else if rp_reportType report = ''monthly'' then
               ''Daily Average (kg CO2),'' @ opt_num ns (sm_dailyAverage (rp_summary report)) @ nl
             else '''');
          csv = csv @ nl;
          csv = csv @ ''BUILDINGS'' @ nl;
          csv = csv @ ''Building,Total Emissions (kg CO2),Total Energy (kWh),Reading Count'' @ nl;
          csv = foldl (\<lambda>csv building.
                   csv @ bt_name building @ '','' @ ns (bt_totalEmissions building) @ '','' @
                   ns (bt_totalEnergy building) @ '','' @ show_nat (bt_readingCount building) @ nl)
                  csv (rp_buildings report);
          csv = csv @ nl;
          csv =
            (case (rp_hourly report, rp_daily report) of
               (hourly, daily) \<Rightarrow>
                 (case (rp_reportType report = ''daily'', hourly) of
                    (True, Some hourly) \<Rightarrow>
                      foldl (\<lambda>csv hour.
                          csv @ show_int (ht_hour hour) @ '':00,'' @ ns (ht_totalEmissions hour) @
                          '','' @ ns (ht_totalEnergy hour) @ '','' @
                          show_nat (ht_readingCount hour) @ nl)
                        (csv @ ''HOURLY DATA'' @ nl @
                         ''Hour,Total Emissions (kg CO2),Total Energy (kWh),Reading Count'' @ nl)
                        hourly
                  | _ \<Rightarrow>
                      (case (rp_reportType report = ''weekly'' \<or> rp_reportType report = ''monthly'',
                             daily) of
                         (True, Some daily) \<Rightarrow>
                           foldl (\<lambda>csv day.
                               csv @ dy_date day @ '','' @ dy_dayName day @ '','' @
                               ns (dy_totalEmissions day) @ '','' @ ns (dy_totalEnergy day) @ '','' @
                               show_nat (dy_readingCount day) @ nl)
                             (csv @ ''DAILY DATA'' @ nl @
                              ''Date,Day,Total Emissions (kg CO2),Total Energy (kWh),Reading Count'' @ nl)
                             daily
                       | _ \<Rightarrow> csv)));
          csv = csv @ nl;
          csv = csv @ ''RECOMMENDATIONS'' @ nl;
          csv = csv @ ''Priority,Category,Recommendation'' @ nl;
          csv = foldl (\<lambda>csv rec.
                   csv @ rr_priority rec @ '','' @ rr_category rec @ '','' @ [CHR 0x22] @
                   rr_text rec @ [CHR 0x22] @ nl)
                  csv (rp_recommendations report)
      in csv)"

section \<open>Sample data\<close>

definition mk_reading :: "string \<Rightarrow> real \<Rightarrow> real \<Rightarrow> reading" where
  "mk_reading i e n =
     \<lparr> rid = i, timestamp = 0, buildingId = ''B-101'', deviceId = ''D-001'',
       energyConsumption = n, carbonEmissions = e, buildingName = None, deviceType = None \<rparr>"

text \<open>Ten readings, emissions nine times 10 and once 100, energy 5 throughout.\<close>

definition anomaly_data_flat :: "reading list" where
  "anomaly_data_flat =
     [mk_reading ''r0'' 10 5, mk_reading ''r1'' 10 5, mk_reading ''r2'' 10 5,
      mk_reading ''r3'' 10 5, mk_reading ''r4'' 10 5, mk_reading ''r5'' 10 5,
      mk_reading ''r6'' 10 5, mk_reading ''r7'' 10 5, mk_reading ''r8'' 10 5,
      mk_reading ''r9'' 100 5]"

text \<open>The same emissions; the first reading has energy 100, the others 10.\<close>

definition anomaly_data_mixed :: "reading list" where
  "anomaly_data_mixed =
     [mk_reading ''r0'' 10 100, mk_reading ''r1'' 10 10, mk_reading ''r2'' 10 10,
      mk_reading ''r3'' 10 10, mk_reading ''r4'' 10 10, mk_reading ''r5'' 10 10,
      mk_reading ''r6'' 10 10, mk_reading ''r7'' 10 10, mk_reading ''r8'' 10 10,
      mk_reading ''r9'' 100 10]"

text \<open>A reading of building \<open>b\<close> and device \<open>d\<close> at time \<open>t\<close>, without metadata.\<close>

definition reading_of :: "string \<Rightarrow> string \<Rightarrow> int \<Rightarrow> real \<Rightarrow> real \<Rightarrow> reading" where
  "reading_of b d t e n =
     \<lparr> rid = ''r'', timestamp = t, buildingId = b, deviceId = d,
       energyConsumption = n, carbonEmissions = e, buildingName = None, deviceType = None \<rparr>"

text \<open>
  Ten readings of one device on two days: five with emissions 10 on the first day, five
  with emissions 20 on the second; the energy is twice the emissions.
\<close>

definition forecast_data :: "reading list" where
  "forecast_data =
     [reading_of ''B-101'' ''D-001'' 0 10 20,
      reading_of ''B-101'' ''D-001'' 3600000 10 20,
      reading_of ''B-101'' ''D-001'' 7200000 10 20,
      reading_of ''B-101'' ''D-001'' 10800000 10 20,
      reading_of ''B-101'' ''D-001'' 14400000 10 20,
      reading_of ''B-101'' ''D-001'' 86400000 20 40,
      reading_of ''B-101'' ''D-001'' 90000000 20 40,
      reading_of ''B-101'' ''D-001'' 93600000 20 40,
      reading_of ''B-101'' ''D-001'' 97200000 20 40,
      reading_of ''B-101'' ''D-001'' 100800000 20 40]"

text \<open>
  The same ten readings reported under the building id \<open>constructor\<close>, and a single
  reading of that building.
\<close>

definition constructor_data :: "reading list" where
  "constructor_data = map (\<lambda>r. r\<lparr> buildingId := ''constructor'' \<rparr>) forecast_data"

definition constructor_reading :: reading where
  "constructor_reading = reading_of ''constructor'' ''D-001'' 0 50 100"

section \<open>Reports as the specification words them\<close>

text \<open>The readings of the day of \<open>date\<close>: from the start of that day up to, not including, the
  start of the next.\<close>

definition day_window :: "int \<Rightarrow> reading list \<Rightarrow> reading list" where
  "day_window date data =
     filter (\<lambda>r. start_of_day date \<le> timestamp r \<and> timestamp r < start_of_day date + msPerDay) data"

text \<open>The recommendation a report carries when it has fewer than 5 readings.\<close>

definition insufficient_data_recommendation :: report_recommendation where
  "insufficient_data_recommendation =
     \<lparr> rr_priority = ''low'', rr_category = ''general'', rr_building = None, rr_device = None,
       rr_text = ''Insufficient data to generate meaningful recommendations. Continue collecting data to improve insights.'' \<rparr>"

text \<open>
  The layout of the CSV export: every line ends in a line feed, and the blocks are
  separated by one empty line.
\<close>

definition csv_lines :: "string list \<Rightarrow> string" where
  "csv_lines ls = concat (map (\<lambda>l. l @ nl) ls)"










section \<open>Anomaly detection\<close>

lemma sqrt_729: "sqrt 729 = 27"
  using real_sqrt_abs [of 27] by simp

text \<open>
  C3. In \<open>anomaly_data_flat\<close> every energy value is 5, so the energy mean is 5, the energy
  standard deviation is 0 and the energy z-score of each reading is \<open>0 / 0\<close>. The division
  is not guarded: the reading flagged through its emissions (mean 19, standard deviation 27,
  z-score 3) is returned with the text \<open>NaN\<close> in its \<open>energyZScore\<close> field, a non-finite
  value in a returned anomaly. Every sum, quotient and square root on this input is a whole
  number.
\<close>

theorem detectAnomalies_zero_variance_NaN:
  "stdDev_of (map energyConsumption anomaly_data_flat) = 0 \<and>
   map a_id (detectAnomalies (toFixed 2) anomaly_data_flat 2) = [''r9''] \<and>
   map energyZScore (detectAnomalies (toFixed 2) anomaly_data_flat 2) = [''NaN'']"
  by (simp add: detectAnomalies_def anomaly_data_flat_def mk_reading_def mean_of_def
      stdDev_of_def reduce_sum_def sqrt_729 check_item_def js_div_def)

text \<open>
  A reading is flagged through either metric. In \<open>anomaly_data_mixed\<close> both metrics have
  mean 19 and standard deviation 27; the first reading is flagged through its energy
  (z-score 3) although its emissions are 10, next to the reading with emissions 100.
\<close>

lemma detectAnomalies_either_metric:
  "map carbonEmissions anomaly_data_mixed = [10, 10, 10, 10, 10, 10, 10, 10, 10, 100] \<and>
   stdDev_of (map carbonEmissions anomaly_data_mixed) = 27 \<and>
   stdDev_of (map energyConsumption anomaly_data_mixed) = 27 \<and>
   map a_id (detectAnomalies (toFixed 2) anomaly_data_mixed 2) = [''r0'', ''r9''] \<and>
   map a_carbonEmissions (detectAnomalies (toFixed 2) anomaly_data_mixed 2) = [10, 100]"
  by (simp add: detectAnomalies_def anomaly_data_mixed_def mk_reading_def mean_of_def
      stdDev_of_def reduce_sum_def sqrt_729 check_item_def js_div_def)

section \<open>Carbon intensity\<close>

lemma roundTo_0: "roundTo f 0 = 0"
  by (simp add: roundTo_def)

text \<open>
  C6. \<open>calculateCarbonIntensity\<close> does throw. For the one reading of the claim's example,
  emissions 50 and energy 100, sent under the building id \<open>constructor\<close>, the lookup
  \<open>buildings[item.buildingId]\<close> finds the inherited \<open>Object\<close> function, no entry is
  created, and reading \<open>building.devices[item.deviceId]\<close> throws a TypeError.
\<close>

theorem calculateCarbonIntensity_inherited_key:
  "calculateCarbonIntensity [constructor_reading] = Inl TypeError"
  by (simp add: calculateCarbonIntensity_def constructor_reading_def reading_of_def
      inherited_names_def)

text \<open>It throws for these building ids and for no other input.\<close>

lemma group_intensity_throws:
  "group_intensity data acc = Inl TypeError \<longleftrightarrow>
     (\<exists>r \<in> set data. buildingId r \<in> set inherited_names)"
  by (induction data arbitrary: acc) simp_all

lemma calculateCarbonIntensity_throws:
  "calculateCarbonIntensity data = Inl TypeError \<longleftrightarrow>
     (\<exists>r \<in> set data. buildingId r \<in> set inherited_names)"
proof (cases "group_intensity data []")
  case (Inl e)
  then have t: "group_intensity data [] = Inl TypeError"
    by (cases e) simp
  then have "data \<noteq> []"
    by auto
  then show ?thesis
    using t group_intensity_throws [of data "[]"] by (simp add: calculateCarbonIntensity_def)
next
  case (Inr grouped)
  then show ?thesis
    using group_intensity_throws [of data "[]"]
    by (simp add: calculateCarbonIntensity_def Let_def)
qed


section \<open>Forecast and recommendations\<close>

text \<open>
  C7 (as amended). With fewer than 10 readings, whatever the periods and the interval,
  \<open>forecast\<close> returns without throwing a result whose forecast array is empty, whose
  confidence is \<open>low\<close> and whose message is "Insufficient historical data for accurate
  forecasting". This result has the three properties forecast, confidence and message
  only: \<open>historical\<close> and \<open>slope\<close> are absent.
\<close>

theorem forecast_insufficient_data:
  "length data < 10 \<longrightarrow>
     forecast dp data periods interval = Inr
       \<lparr> fr_historical = None, fr_forecast = [], fr_confidence = ''low'', fr_slope = None,
         fr_message = ''Insufficient historical data for accurate forecasting'' \<rparr>"
  by (simp add: forecast_def)

theorem forecast_insufficient_data_witness:
  "length (take 9 forecast_data) < 10 \<and>
   map_sum id fr_forecast (forecast parse_ymd (take 9 forecast_data) 7 ''day'') = Inr [] \<and>
   map_sum id fr_confidence (forecast parse_ymd (take 9 forecast_data) 7 ''day'') = Inr ''low'' \<and>
   map_sum id fr_message (forecast parse_ymd (take 9 forecast_data) 7 ''day'') =
     Inr ''Insufficient historical data for accurate forecasting''"
proof -
  have small: "length (take 9 forecast_data) < 10"
    by simp
  then show ?thesis
    using forecast_insufficient_data
      [where data = "take 9 forecast_data" and dp = parse_ymd and periods = 7
        and interval = "''day''"]
    by simp
qed

text \<open>
  The claim as first stated fails: the result for too little data has no \<open>historical\<close> and
  no \<open>slope\<close>.
\<close>

theorem forecast_shape_counterexample:
  "length (take 9 forecast_data) < 10 \<and>
   map_sum id fr_historical (forecast parse_ymd (take 9 forecast_data) 7 ''day'') = Inr None \<and>
   map_sum id fr_slope (forecast parse_ymd (take 9 forecast_data) 7 ''day'') = Inr None"
proof -
  have small: "length (take 9 forecast_data) < 10"
    by simp
  then show ?thesis
    unfolding forecast_def by (simp only: if_True map_sum.simps forecast_result.simps id_apply)
qed

text \<open>
  C9. \<open>generateRecommendations\<close> does not always return a list. With ten readings the
  early return is not taken and \<open>calculateCarbonIntensity\<close> runs first; when the readings
  carry the building id \<open>constructor\<close> it throws a TypeError, which nothing catches, and
  no recommendation is returned.
\<close>

theorem generateRecommendations_inherited_key:
  "length constructor_data = 10 \<and>
   generateRecommendations (toFixed 2) constructor_data = Inl TypeError"
  by (simp add: generateRecommendations_def calculateCarbonIntensity_def constructor_data_def
      forecast_data_def reading_of_def inherited_names_def)

text \<open>
  Without such a building id the call returns, and the list has one entry below ten
  readings and at least two from ten readings on.
\<close>

lemma group_anomalies_returns:
  "\<forall>a \<in> set anomalies. a_buildingId a \<notin> set inherited_names \<Longrightarrow>
   \<exists>g. group_anomalies anomalies acc = Inr g"
  by (induction anomalies arbitrary: acc) simp_all

lemma check_item_building:
  "a \<in> set (check_item ns t mE sdE mN sdN r) \<Longrightarrow> a_buildingId a = buildingId r"
  by (auto simp: check_item_def Let_def split: if_splits)

lemma detectAnomalies_buildings:
  assumes "a \<in> set (detectAnomalies ns data threshold)"
  shows "\<exists>r \<in> set data. a_buildingId a = buildingId r"
  using assms
  by (auto simp: detectAnomalies_def Let_def dest: check_item_building split: if_splits)

lemma anomaly_recommendations_returns:
  assumes "\<forall>r \<in> set data. buildingId r \<notin> set inherited_names"
  shows "\<exists>recs. anomaly_recommendations (detectAnomalies ns data threshold) = Inr recs"
proof -
  have "\<forall>a \<in> set (detectAnomalies ns data threshold). a_buildingId a \<notin> set inherited_names"
    using assms detectAnomalies_buildings by metis
  then obtain g where "group_anomalies (detectAnomalies ns data threshold) [] = Inr g"
    using group_anomalies_returns by blast
  then show ?thesis
    by (simp add: anomaly_recommendations_def)
qed

lemma trend_recommendations_returns:
  assumes "data \<noteq> []"
  shows "\<exists>recs. trend_recommendations (identifyTrends data interval) = Inr recs"
proof -
  obtain a where "tr_analysis (identifyTrends data interval) = Some a"
    using assms by (simp add: identifyTrends_def Let_def)
  then show ?thesis
    by (simp add: trend_recommendations_def)
qed

lemma generateRecommendations_own_keys:
  assumes "\<forall>r \<in> set data. buildingId r \<notin> set inherited_names"
  shows "\<exists>recs. generateRecommendations ns data = Inr recs \<and> recs \<noteq> [] \<and>
           (length data < 10 \<longrightarrow>
              recs = [\<lparr> rec_type = ''general'', rec_priority = ''medium'', rec_target = None,
                        rec_text = ''Collect more data to enable comprehensive analysis and more specific recommendations.'' \<rparr>]) \<and>
           (10 \<le> length data \<longrightarrow> 2 \<le> length recs)"
proof (cases "length data < 10")
  case True
  then show ?thesis
    by (simp add: generateRecommendations_def)
next
  case False
  then have ne: "data \<noteq> []"
    by auto
  obtain i where i: "calculateCarbonIntensity data = Inr i"
    using assms calculateCarbonIntensity_throws [of data]
    by (cases "calculateCarbonIntensity data") (metis js_error.exhaust, simp)
  obtain t where t: "trend_recommendations (identifyTrends data ''day'') = Inr t"
    using trend_recommendations_returns [OF ne] by blast
  obtain a where a: "anomaly_recommendations (detectAnomalies ns data 2) = Inr a"
    using anomaly_recommendations_returns [OF assms] by blast
  have g: "length general_recommendations = 2" "general_recommendations \<noteq> []"
    by (simp_all add: general_recommendations_def)
  show ?thesis
    using False by (auto simp: generateRecommendations_def Let_def i t a g)
qed

lemma generateRecommendations_throws:
  "generateRecommendations ns data = Inl TypeError \<longleftrightarrow>
     10 \<le> length data \<and> (\<exists>r \<in> set data. buildingId r \<in> set inherited_names)"
proof (cases "\<exists>r \<in> set data. buildingId r \<in> set inherited_names")
  case True
  then have "calculateCarbonIntensity data = Inl TypeError"
    by (simp only: calculateCarbonIntensity_throws)
  then show ?thesis
    using True by (auto simp: generateRecommendations_def)
next
  case False
  then obtain recs where "generateRecommendations ns data = Inr recs"
    using generateRecommendations_own_keys [of data ns] by blast
  then show ?thesis
    using False by simp
qed


section \<open>Statistics, reports and the CSV export\<close>


lemma in_window_day:
  "in_window (start_of_day date) (add_days (start_of_day date) 1) data = day_window date data"
  by (simp add: in_window_def day_window_def add_days_def)

text \<open>
  The report builders return a report when no building id names an inherited property;
  the daily one throws exactly when such an id occurs in the day's window.
\<close>

lemma group_totals_returns:
  "\<forall>r \<in> set data. buildingId r \<notin> set inherited_names \<Longrightarrow>
   \<exists>bs. group_totals data acc = Inr bs"
  by (induction data arbitrary: acc) simp_all

lemma groupByBuilding_returns:
  assumes "\<forall>r \<in> set data. buildingId r \<notin> set inherited_names"
  shows "\<exists>bs. groupByBuilding data = Inr bs"
proof -
  obtain gs where "group_totals data [] = Inr gs"
    using group_totals_returns [OF assms] by blast
  then show ?thesis
    by (simp add: groupByBuilding_def)
qed

lemma rg_generateRecommendations_returns:
  assumes "\<forall>r \<in> set data. buildingId r \<notin> set inherited_names"
  shows "\<exists>recs. rg_generateRecommendations ns data reportType = Inr recs"
proof -
  obtain bs where "groupByBuilding data = Inr bs"
    using groupByBuilding_returns [OF assms] by blast
  then show ?thesis
    by (simp add: rg_generateRecommendations_def Let_def)
qed





lemma group_totals_throws:
  "group_totals data acc = Inl TypeError \<longleftrightarrow>
     (\<exists>r \<in> set data. buildingId r \<in> set inherited_names)"
  by (induction data arbitrary: acc) simp_all

lemma groupByBuilding_throws:
  "groupByBuilding data = Inl TypeError \<longleftrightarrow>
     (\<exists>r \<in> set data. buildingId r \<in> set inherited_names)"
proof (cases "group_totals data []")
  case (Inl e)
  then have "group_totals data [] = Inl TypeError"
    by (cases e) simp
  then show ?thesis
    using group_totals_throws [of data "[]"] by (simp add: groupByBuilding_def)
next
  case (Inr grouped)
  then show ?thesis
    using group_totals_throws [of data "[]"] by (simp add: groupByBuilding_def)
qed

lemma generateDailyReport_throws:
  "generateDailyReport ns data date = Inl TypeError \<longleftrightarrow>
     (\<exists>r \<in> set (day_window date data). buildingId r \<in> set inherited_names)"
proof (cases "\<exists>r \<in> set (day_window date data). buildingId r \<in> set inherited_names")
  case True
  then have "groupByBuilding (day_window date data) = Inl TypeError"
    by (simp only: groupByBuilding_throws)
  then show ?thesis
    using True by (simp add: generateDailyReport_def Let_def in_window_day)
next
  case False
  then have own: "\<forall>r \<in> set (day_window date data). buildingId r \<notin> set inherited_names"
    by simp
  obtain bs where bs: "groupByBuilding (day_window date data) = Inr bs"
    using groupByBuilding_returns [OF own] by blast
  obtain recs where recs:
    "rg_generateRecommendations ns (day_window date data) ''daily'' = Inr recs"
    using rg_generateRecommendations_returns [OF own] by blast
  show ?thesis
    using False by (simp add: generateDailyReport_def Let_def in_window_day bs recs)
qed

lemma toFixed_2_5: "toFixed 2 5 = ''5.00''"
  by (simp add: toFixed_def show_nat.simps padStart0_def digit_char_def)

text \<open>
  C5. The daily report and the statistics part ways on a day whose only reading carries
  the building id \<open>constructor\<close>: \<open>getStatistics\<close> on the readings of that day gives the
  emissions total \<open>5.00\<close>, while \<open>generateDailyReport\<close> throws a TypeError in
  \<open>groupByBuilding\<close> and gives no report, hence no total.
\<close>

theorem daily_report_inherited_key:
  "day_window 0 [reading_of ''constructor'' ''D-001'' 0 5 10] =
     [reading_of ''constructor'' ''D-001'' 0 5 10] \<and>
   st_emissionsTotal (getStatistics (day_window 0 [reading_of ''constructor'' ''D-001'' 0 5 10])) =
     JStr ''5.00'' \<and>
   generateDailyReport (toFixed 2) [reading_of ''constructor'' ''D-001'' 0 5 10] 0 =
     Inl TypeError"
proof -
  have z: "start_of_day 0 = 0"
    by (simp add: start_of_day_def)
  have w: "day_window 0 [reading_of ''constructor'' ''D-001'' 0 5 10] =
      [reading_of ''constructor'' ''D-001'' 0 5 10]"
    by (simp add: day_window_def z reading_of_def msPerDay_def)
  have s: "st_emissionsTotal (getStatistics [reading_of ''constructor'' ''D-001'' 0 5 10]) =
      JStr ''5.00''"
    by (simp add: getStatistics_def Let_def reduce_sum_def reading_of_def toFixed_2_5)
  have g: "groupByBuilding [reading_of ''constructor'' ''D-001'' 0 5 10] = Inl TypeError"
    by (simp add: groupByBuilding_def reading_of_def inherited_names_def)
  have r: "generateDailyReport (toFixed 2) [reading_of ''constructor'' ''D-001'' 0 5 10] 0 =
      Inl TypeError"
    by (simp add: generateDailyReport_def Let_def in_window_day w g)
  show ?thesis
    using w s r by (simp only: simp_thms)
qed

lemma empty_window:
  assumes "\<forall>r \<in> set data. timestamp r < start_of_day date \<or> start_of_day date + msPerDay \<le> timestamp r"
  shows "day_window date data = []"
  using assms by (auto simp: day_window_def filter_empty_conv)

text \<open>
  C10. When no reading falls into the day's window, \<open>generateDailyReport\<close> returns a report
  whose summary has totalEmissions 0, totalEnergy 0, readingCount 0, peakHour N/A and
  peakEmissions 0, whose buildings and hourly arrays are empty, and whose only
  recommendation is the low-priority general one about insufficient data.
\<close>

theorem generateDailyReport_empty_window:
  "(\<forall>r \<in> set data. timestamp r < start_of_day date \<or> start_of_day date + msPerDay \<le> timestamp r) \<longrightarrow>
     (\<exists>r. generateDailyReport ns data date = Inr r \<and>
        sm_totalEmissions (rp_summary r) = 0 \<and>
        sm_totalEnergy (rp_summary r) = 0 \<and>
        sm_readingCount (rp_summary r) = 0 \<and>
        sm_peakHour (rp_summary r) = Some ''N/A'' \<and>
        sm_peakEmissions (rp_summary r) = Some 0 \<and>
        rp_buildings r = [] \<and>
        rp_hourly r = Some [] \<and>
        rp_recommendations r = [insufficient_data_recommendation])"
proof
  assume "\<forall>r \<in> set data. timestamp r < start_of_day date \<or> start_of_day date + msPerDay \<le> timestamp r"
  then have w: "day_window date data = []"
    by (rule empty_window)
  show "\<exists>r. generateDailyReport ns data date = Inr r \<and>
        sm_totalEmissions (rp_summary r) = 0 \<and>
        sm_totalEnergy (rp_summary r) = 0 \<and>
        sm_readingCount (rp_summary r) = 0 \<and>
        sm_peakHour (rp_summary r) = Some ''N/A'' \<and>
        sm_peakEmissions (rp_summary r) = Some 0 \<and>
        rp_buildings r = [] \<and>
        rp_hourly r = Some [] \<and>
        rp_recommendations r = [insufficient_data_recommendation]"
    by (simp add: generateDailyReport_def Let_def in_window_day w roundTo_0 groupByBuilding_def
        groupByHour_def findPeakHour_def rg_generateRecommendations_def sort_desc_def
        object_entries_def insufficient_data_recommendation_def)
qed

theorem generateDailyReport_empty_window_witness:
  "list_all (\<lambda>r. timestamp r < start_of_day 432005000 \<or>
                start_of_day 432005000 + msPerDay \<le> timestamp r) forecast_data \<and>
   (\<exists>r. generateDailyReport (toFixed 2) forecast_data 432005000 = Inr r \<and>
      sm_totalEmissions (rp_summary r) = 0 \<and>
      sm_totalEnergy (rp_summary r) = 0 \<and>
      sm_readingCount (rp_summary r) = 0 \<and>
      sm_peakHour (rp_summary r) = Some ''N/A'' \<and>
      sm_peakEmissions (rp_summary r) = Some 0 \<and>
      rp_buildings r = [] \<and>
      rp_hourly r = Some [] \<and>
      rp_recommendations r = [insufficient_data_recommendation])"
proof -
  have s: "start_of_day 432005000 = 432000000"
    by (simp add: start_of_day_def msPerDay_def)
  have out: "\<forall>r \<in> set forecast_data. timestamp r < start_of_day 432005000 \<or>
               start_of_day 432005000 + msPerDay \<le> timestamp r"
    unfolding s by (simp add: forecast_data_def reading_of_def)
  then have "list_all (\<lambda>r. timestamp r < start_of_day 432005000 \<or>
                start_of_day 432005000 + msPerDay \<le> timestamp r) forecast_data"
    by (simp only: list_all_iff)
  then show ?thesis
    using generateDailyReport_empty_window
      [where data = forecast_data and date = 432005000 and ns = "toFixed 2"] out
    by simp
qed





















text \<open>The export of the daily report for a day without readings, line by line.\<close>

lemma iso_date_epoch: "iso_date 0 = ''1970-01-01''"
  by code_simp

lemma exportReportAsCsv_empty_day:
  "map_sum id (exportReportAsCsv (toFixed 2)) (generateDailyReport (toFixed 2) [] 0) =
     Inr (csv_lines
       [''Report Type,daily'',
        ''Date,1970-01-01'',
        [],
        ''SUMMARY'',
        ''Total Emissions (kg CO2),0.00'',
        ''Total Energy (kWh),0.00'',
        ''Reading Count,0'',
        ''Peak Hour,N/A'',
        ''Peak Emissions (kg CO2),0.00'',
        [],
        ''BUILDINGS'',
        ''Building,Total Emissions (kg CO2),Total Energy (kWh),Reading Count'',
        [],
        ''HOURLY DATA'',
        ''Hour,Total Emissions (kg CO2),Total Energy (kWh),Reading Count'',
        [],
        ''RECOMMENDATIONS'',
        ''Priority,Category,Recommendation'',
        ''low,general,'' @ [CHR 0x22] @
        ''Insufficient data to generate meaningful recommendations. Continue collecting data to improve insights.'' @
        [CHR 0x22]])"
proof -
  have z: "start_of_day 0 = 0"
    by (simp add: start_of_day_def)
  have t: "toFixed 2 0 = ''0.00''"
    by (simp add: toFixed_def show_nat.simps padStart0_def digit_char_def)
  have n: "show_nat 0 = ''0''"
    by (simp add: show_nat.simps digit_char_def)
  show ?thesis
    by (simp add: exportReportAsCsv_def generateDailyReport_def Let_def z in_window_def
        roundTo_0 groupByBuilding_def groupByHour_def findPeakHour_def sort_desc_def
        object_entries_def
        rg_generateRecommendations_def iso_date_epoch t n truthy_def opt_str_def opt_num_def
        csv_lines_def)
qed


end
